theory Spec2Isabelle
  imports Main "HOL-Library.Sublist"
begin

section \<open>The provider payload\<close>

text \<open>
  \<^verbatim>\<open>src/services/api_service.py\<close> fetches an intraday series from Alpha Vantage
  (\<^verbatim>\<open>fetch_intraday_data\<close>) and turns the JSON body into a pandas DataFrame
  (\<^verbatim>\<open>parse_time_series\<close>).

  A Python dict keeps its keys in insertion order and the code iterates over them, so a
  dict is an association list; its keys are pairwise distinct.

  The time-series section of the wire format is a JSON object that maps a timestamp
  string to an object of labelled string fields (\<open>JSeries\<close>, which includes the empty
  object). \<open>JOther\<close> stands for the remaining values the code can meet under a key: a
  scalar, an array, or a non-empty object of scalars such as the \<^verbatim>\<open>Meta Data\<close> block.
  The code inspects a value only under the time-series key. An object whose members are
  arrays, or whose fields are not strings, is not represented.
\<close>

type_synonym fields = "(string \<times> string) list"

type_synonym series = "(string \<times> fields) list"

datatype json = JSeries series | JOther

type_synonym payload = "(string \<times> json) list"

section \<open>The Fetcher: \<^verbatim>\<open>fetch_intraday_data\<close>\<close>

text \<open>
  \<^verbatim>\<open>config\<close> is a module of the repository that is not among the sources; its two
  constants are parameters.
\<close>

record config =
  ALPHA_VANTAGE_BASE_URL :: string
  ALPHA_VANTAGE_API_KEY :: string

text \<open>
  What \<^verbatim>\<open>requests.get(url, params=params, timeout=10)\<close> and the later
  \<^verbatim>\<open>response.json()\<close> can do: raise \<^verbatim>\<open>requests.exceptions.ConnectionError\<close>
  (\<open>Refused\<close>), raise \<^verbatim>\<open>requests.exceptions.Timeout\<close> (\<open>TimedOut\<close>), raise any other
  exception (\<open>Broken\<close>), or return a response with a status code and a body. The body
  fails to decode as JSON (\<open>Undecodable\<close>), decodes to a dict (\<open>Decoded\<close>), or decodes
  to \<^verbatim>\<open>null\<close>, a number or a boolean (\<open>DecodedScalar\<close>). A body that decodes to a
  list or a string is not represented: the function's declared result type is
  \<^verbatim>\<open>Optional[Dict]\<close>.
\<close>

datatype body = Undecodable | Decoded payload | DecodedScalar

datatype reply = Refused | TimedOut | Broken | Response nat body

text \<open>The exceptions that can be raised inside the \<^verbatim>\<open>try\<close> block.\<close>

datatype exn =
    HTTPError nat
  | ConnectionError
  | Timeout
  | JSONDecodeError
  | TypeError
  | ValueError string
  | OtherException

text \<open>The line each \<^verbatim>\<open>except\<close> clause prints; the string argument is the symbol.\<close>

datatype message =
    InvalidApiKey string
  | RateLimitExceeded string
  | HttpErrorOccurred exn string
  | NetworkConnectionError string
  | RequestTimedOut string
  | ErrorOccurred exn string

text \<open>
  The function returns the tuple \<^verbatim>\<open>(data, False)\<close> or \<^verbatim>\<open>(None, True)\<close>. The spec
  calls the first \<open>Payload(data)\<close> and the second \<open>Fallback\<close>.
\<close>

type_synonym outcome = "payload option \<times> bool"

definition Payload :: "payload \<Rightarrow> outcome" where
  "Payload data = (Some data, False)"

definition Fallback :: outcome where
  "Fallback = (None, True)"

text \<open>
  \<^verbatim>\<open>Response.raise_for_status()\<close> of the requests library raises \<^verbatim>\<open>HTTPError\<close> for a
  client error (\<open>400 \<le> status < 500\<close>) and for a server error (\<open>500 \<le> status < 600\<close>),
  and returns for every other status.
\<close>

definition raise_for_status :: "nat \<Rightarrow> exn + unit" where
  "raise_for_status status =
     (if 400 \<le> status \<and> status < 500 then Inl (HTTPError status)
      else if 500 \<le> status \<and> status < 600 then Inl (HTTPError status)
      else Inr ())"

text \<open>
  \<^verbatim>\<open>response.json()\<close> (line 35), as far as a dict comes out of it. On
  \<^verbatim>\<open>null\<close>, a number or a boolean the membership test of line 38 raises
  \<^verbatim>\<open>TypeError\<close>, which is the exception given here.
\<close>

definition json_of :: "body \<Rightarrow> exn + payload" where
  "json_of b =
     (case b of
        Undecodable \<Rightarrow> Inl JSONDecodeError
      | Decoded data \<Rightarrow> Inr data
      | DecodedScalar \<Rightarrow> Inl TypeError)"

text \<open>Sequencing of steps that may raise.\<close>

definition and_then :: "'e + 'a \<Rightarrow> ('a \<Rightarrow> 'e + 'b) \<Rightarrow> 'e + 'b" where
  "and_then r f = (case r of Inl e \<Rightarrow> Inl e | Inr x \<Rightarrow> f x)"

text \<open>
  The request: the URL, the query parameters in the order the code builds them, and the
  timeout.
\<close>

type_synonym transport = "string \<Rightarrow> (string \<times> string) list \<Rightarrow> nat \<Rightarrow> reply"

definition params_of :: "string \<Rightarrow> string \<Rightarrow> string \<Rightarrow> (string \<times> string) list" where
  "params_of symbol interval api_key =
     [(''function'', ''TIME_SERIES_INTRADAY''),
      (''symbol'', symbol),
      (''interval'', interval),
      (''outputsize'', ''full''),
      (''apikey'', api_key)]"

text \<open>Line 32: \<^verbatim>\<open>requests.get(config.ALPHA_VANTAGE_BASE_URL, params=params, timeout=10)\<close>.\<close>

definition send :: "config \<Rightarrow> transport \<Rightarrow> string \<Rightarrow> string \<Rightarrow> string \<Rightarrow> reply" where
  "send cfg get symbol interval api_key =
     get (ALPHA_VANTAGE_BASE_URL cfg) (params_of symbol interval api_key) 10"

text \<open>The body of the \<^verbatim>\<open>try\<close> block (lines 24 to 43): an exception or the data.\<close>

definition try_block :: "config \<Rightarrow> transport \<Rightarrow> string \<Rightarrow> string \<Rightarrow> string \<Rightarrow> exn + payload" where
  "try_block cfg get symbol interval api_key =
     (case send cfg get symbol interval api_key of
        Refused \<Rightarrow> Inl ConnectionError
      | TimedOut \<Rightarrow> Inl Timeout
      | Broken \<Rightarrow> Inl OtherException
      | Response status b \<Rightarrow>
          and_then (raise_for_status status) (\<lambda>_.
          and_then (json_of b) (\<lambda>data.
            if ''Error Message'' \<in> set (map fst data)
            then Inl (ValueError (''Invalid symbol: '' @ symbol))
            else if ''Note'' \<in> set (map fst data)
            then Inl (ValueError ''API rate limit reached. Using demo data instead.'')
            else Inr data)))"

text \<open>
  The \<^verbatim>\<open>except\<close> clauses (lines 45 to 61), tried in order. The last one,
  \<^verbatim>\<open>except Exception\<close>, takes every exception the first three leave.
\<close>

fun except :: "string \<Rightarrow> exn \<Rightarrow> exn + (message list \<times> outcome)" where
  "except symbol (HTTPError status_code) =
     Inr ([if status_code = 401 then InvalidApiKey symbol
           else if status_code = 429 then RateLimitExceeded symbol
           else HttpErrorOccurred (HTTPError status_code) symbol], (None, True))"
| "except symbol ConnectionError = Inr ([NetworkConnectionError symbol], (None, True))"
| "except symbol Timeout = Inr ([RequestTimedOut symbol], (None, True))"
| "except symbol e = Inr ([ErrorOccurred e symbol], (None, True))"

text \<open>
  The default of the third argument: \<open>api_key = None\<close> is the call that omits it and
  gets \<^verbatim>\<open>config.ALPHA_VANTAGE_API_KEY\<close>.
\<close>

definition credential :: "config \<Rightarrow> string option \<Rightarrow> string" where
  "credential cfg api_key = (case api_key of None \<Rightarrow> ALPHA_VANTAGE_API_KEY cfg | Some k \<Rightarrow> k)"

text \<open>
  \<^verbatim>\<open>fetch_intraday_data(symbol, interval, api_key=config.ALPHA_VANTAGE_API_KEY)\<close>: the
  result is \<open>Inl\<close> of an exception that leaves the function, or \<open>Inr\<close> of the printed
  lines and the returned tuple.
\<close>

definition fetch_intraday_data ::
  "config \<Rightarrow> transport \<Rightarrow> string \<Rightarrow> string \<Rightarrow> string option \<Rightarrow> exn + (message list \<times> outcome)" where
  "fetch_intraday_data cfg get symbol interval api_key =
     (case try_block cfg get symbol interval (credential cfg api_key) of
        Inr data \<Rightarrow> Inr ([], (Some data, False))
      | Inl e \<Rightarrow> except symbol e)"

section \<open>The Normalizer: \<^verbatim>\<open>parse_time_series\<close>\<close>

text \<open>
  A DataFrame: the name of its index, its column names, and its rows in order, each an
  index value with one cell per column. A cell holds the string the payload gave, a number,
  or NaN (where a row has no value for a column).
\<close>

datatype 'n cell = Text string | Number 'n | NaN

record ('i, 'n) frame =
  index_name :: "string option"
  columns :: "string list"
  rows :: "('i \<times> 'n cell list) list"

text \<open>\<^verbatim>\<open>pd.DataFrame()\<close>.\<close>

definition DataFrame :: "('i, 'n) frame" where
  "DataFrame = \<lparr>index_name = None, columns = [], rows = []\<rparr>"

datatype error = KeyError | BadSection | LengthMismatch | BadTimestamp | BadNumber

text \<open>The elements of a list in the order in which they first appear.\<close>

fun first_seen :: "'a list \<Rightarrow> 'a list" where
  "first_seen [] = []"
| "first_seen (x # xs) = x # filter (\<lambda>y. y \<noteq> x) (first_seen xs)"

text \<open>
  \<^verbatim>\<open>pd.DataFrame.from_dict(time_series, orient='index')\<close>. pandas first turns the
  nested dict \<open>{row: {label: value}}\<close> into \<open>{label: {row: value}}\<close>, visiting the rows
  and the fields of each row in order, and builds the frame from that: the columns are the
  labels in the order they are first met; the index is the union of the row keys of the
  columns, again in the order first met (so a row with no field is in no column and does
  not reach the frame); a cell is the row's value under the label, NaN where the row has
  none. An empty dict gives a frame with no column and no row. On a value that is not a
  dict of dicts the call raises, or it builds a frame that has not five columns and the
  assignment of the column names raises next; \<open>BadSection\<close> stands for both.

  The sources name no version of pandas. What is written here is pandas up to 3.0. A later
  pandas is reported to keep a row with no field, as a row of NaN: the two differ on such
  rows only.
\<close>

definition frame_columns :: "series \<Rightarrow> string list" where
  "frame_columns time_series = first_seen (concat (map (\<lambda>(k, r). map fst r) time_series))"

definition frame_index :: "series \<Rightarrow> string list" where
  "frame_index time_series =
     first_seen (concat (map (\<lambda>c. map fst (filter (\<lambda>(k, r). c \<in> set (map fst r)) time_series))
                            (frame_columns time_series)))"

definition frame_cell :: "series \<Rightarrow> string \<Rightarrow> string \<Rightarrow> 'n cell" where
  "frame_cell time_series k c =
     (case map_of time_series k of
        None \<Rightarrow> NaN
      | Some r \<Rightarrow> (case map_of r c of None \<Rightarrow> NaN | Some v \<Rightarrow> Text v))"

definition from_dict :: "json \<Rightarrow> error + (string, 'n) frame" where
  "from_dict v =
     (case v of
        JOther \<Rightarrow> Inl BadSection
      | JSeries time_series \<Rightarrow>
          Inr \<lparr>index_name = None,
               columns = frame_columns time_series,
               rows = map (\<lambda>k. (k, map (frame_cell time_series k) (frame_columns time_series)))
                          (frame_index time_series)\<rparr>)"

text \<open>\<^verbatim>\<open>df.columns = names\<close>: pandas raises unless there is one name per column.\<close>

definition set_columns :: "string list \<Rightarrow> ('i, 'n) frame \<Rightarrow> error + ('i, 'n) frame" where
  "set_columns names df =
     (if length names \<noteq> length (columns df) then Inl LengthMismatch
      else Inr (df\<lparr>columns := names\<rparr>))"

text \<open>All results of a list of partial readings, or nothing when one of them fails.\<close>

fun every :: "'a option list \<Rightarrow> 'a list option" where
  "every [] = Some []"
| "every (None # xs) = None"
| "every (Some x # xs) = map_option ((#) x) (every xs)"

text \<open>
  \<^verbatim>\<open>pd.to_datetime\<close> and \<^verbatim>\<open>pd.to_numeric\<close> are library functions; how they read one
  string is a parameter (\<open>read_datetime\<close>, \<open>read_number\<close>: \<open>None\<close> where pandas raises).
  \<^verbatim>\<open>pd.to_datetime(index)\<close> reads every entry of the index. \<^verbatim>\<open>pd.to_numeric(column)\<close>
  reads every string of the column and leaves numbers and NaN as they are.

  A reader sees one string at a time. pandas from version 2 on takes the format of the
  first entry for the whole index and raises on an entry in another format, and
  \<^verbatim>\<open>pd.to_numeric\<close> gives one number type to the whole column: an index of mixed
  formats and the rounding of a column are beyond such a reader.
\<close>

definition to_datetime :: "(string \<Rightarrow> 't option) \<Rightarrow> string list \<Rightarrow> error + 't list" where
  "to_datetime read_datetime idx =
     (case every (map read_datetime idx) of None \<Rightarrow> Inl BadTimestamp | Some ts \<Rightarrow> Inr ts)"

definition numeric_cell :: "(string \<Rightarrow> 'n option) \<Rightarrow> 'n cell \<Rightarrow> 'n cell option" where
  "numeric_cell read_number c =
     (case c of
        Text s \<Rightarrow> map_option Number (read_number s)
      | Number x \<Rightarrow> Some (Number x)
      | NaN \<Rightarrow> Some NaN)"

definition to_numeric :: "(string \<Rightarrow> 'n option) \<Rightarrow> 'n cell list \<Rightarrow> error + 'n cell list" where
  "to_numeric read_number col =
     (case every (map (numeric_cell read_number) col) of
        None \<Rightarrow> Inl BadNumber
      | Some col' \<Rightarrow> Inr col')"

text \<open>\<^verbatim>\<open>df.index\<close> and \<^verbatim>\<open>df.index = idx\<close>.\<close>

definition index :: "('i, 'n) frame \<Rightarrow> 'i list" where
  "index df = map fst (rows df)"

definition set_index :: "'j list \<Rightarrow> ('i, 'n) frame \<Rightarrow> ('j, 'n) frame" where
  "set_index idx df =
     \<lparr>index_name = index_name df, columns = columns df,
      rows = map (\<lambda>(j, (i, cs)). (j, cs)) (zip idx (rows df))\<rparr>"

text \<open>The position of a column name.\<close>

fun position :: "'a \<Rightarrow> 'a list \<Rightarrow> nat option" where
  "position x [] = None"
| "position x (y # ys) = (if x = y then Some 0 else map_option Suc (position x ys))"

text \<open>\<^verbatim>\<open>df[name]\<close> and \<^verbatim>\<open>df[name] = col\<close> for a column name of the frame.\<close>

definition getitem :: "string \<Rightarrow> ('i, 'n) frame \<Rightarrow> error + 'n cell list" where
  "getitem name df =
     (case position name (columns df) of
        None \<Rightarrow> Inl KeyError
      | Some j \<Rightarrow> Inr (map (\<lambda>(i, cs). cs ! j) (rows df)))"

definition setitem :: "string \<Rightarrow> 'n cell list \<Rightarrow> ('i, 'n) frame \<Rightarrow> error + ('i, 'n) frame" where
  "setitem name col df =
     (case position name (columns df) of
        None \<Rightarrow> Inl KeyError
      | Some j \<Rightarrow> Inr (df\<lparr>rows := map (\<lambda>((i, cs), c). (i, cs[j := c])) (zip (rows df) col)\<rparr>))"

text \<open>\<^verbatim>\<open>df[name] = pd.to_numeric(df[name])\<close>.\<close>

definition numeric_column ::
  "(string \<Rightarrow> 'n option) \<Rightarrow> string \<Rightarrow> ('i, 'n) frame \<Rightarrow> error + ('i, 'n) frame" where
  "numeric_column read_number name df =
     and_then (getitem name df) (\<lambda>col.
     and_then (to_numeric read_number col) (\<lambda>col'.
     setitem name col' df))"

text \<open>
  \<^verbatim>\<open>df.sort_index()\<close>: the rows in ascending order of the index. Rows with equal index
  values keep the order they had (pandas leaves their order open).
\<close>

definition sort_index :: "('i::linorder, 'n) frame \<Rightarrow> ('i, 'n) frame" where
  "sort_index df = df\<lparr>rows := sort_key fst (rows df)\<rparr>"

text \<open>
  Python's truth test of an optional argument: \<^verbatim>\<open>None\<close>, the empty string and the
  empty dict are false.
\<close>

definition truthy :: "'a list option \<Rightarrow> bool" where
  "truthy x = (case x of None \<Rightarrow> False | Some v \<Rightarrow> v \<noteq> [])"

text \<open>
  The two places (lines 79 to 81 and 92 to 94) that return demo data, or an empty frame
  when the symbol or the interval is missing. \<^verbatim>\<open>demo_data.generate_demo_stock_data\<close> is
  not among the sources: it is a parameter.
\<close>

definition demo_or_empty ::
  "(string \<Rightarrow> string \<Rightarrow> ('t, 'n) frame) \<Rightarrow> string option \<Rightarrow> string option \<Rightarrow> ('t, 'n) frame" where
  "demo_or_empty generate_demo_stock_data symbol interval =
     (if truthy symbol \<and> truthy interval
      then generate_demo_stock_data (the symbol) (the interval)
      else DataFrame)"

text \<open>
  The loop of lines 84 to 88: the first key that starts with \<^verbatim>\<open>Time Series\<close>, or
  \<^verbatim>\<open>None\<close>. A key the loop finds is not the empty string, so the test
  \<^verbatim>\<open>if not time_series_key\<close> of line 90 is the test for \<^verbatim>\<open>None\<close>.
\<close>

definition time_series_key :: "payload \<Rightarrow> string option" where
  "time_series_key response = find (prefix ''Time Series'') (map fst response)"

text \<open>Lines 96 to 118, for the value found under the time-series key.\<close>

definition build_frame ::
  "(string \<Rightarrow> 't option) \<Rightarrow> (string \<Rightarrow> 'n option) \<Rightarrow> json \<Rightarrow> error + ('t::linorder, 'n) frame" where
  "build_frame read_datetime read_number time_series =
     and_then (from_dict time_series) (\<lambda>df.
     and_then (set_columns [''open'', ''high'', ''low'', ''close'', ''volume''] df) (\<lambda>df.
     and_then (to_datetime read_datetime (index df)) (\<lambda>idx.
     and_then (Inr ((set_index idx df)\<lparr>index_name := Some ''timestamp''\<rparr>)) (\<lambda>df.
     and_then (numeric_column read_number ''open'' df) (\<lambda>df.
     and_then (numeric_column read_number ''high'' df) (\<lambda>df.
     and_then (numeric_column read_number ''low'' df) (\<lambda>df.
     and_then (numeric_column read_number ''close'' df) (\<lambda>df.
     and_then (numeric_column read_number ''volume'' df) (\<lambda>df.
     Inr (sort_index df))))))))))"

text \<open>
  \<^verbatim>\<open>parse_time_series(response, symbol=None, interval=None)\<close>: \<open>Inl\<close> of the exception
  that leaves the function, or \<open>Inr\<close> of the returned frame.
\<close>

definition parse_time_series ::
  "(string \<Rightarrow> string \<Rightarrow> ('t::linorder, 'n) frame) \<Rightarrow> (string \<Rightarrow> 't option) \<Rightarrow> (string \<Rightarrow> 'n option) \<Rightarrow>
   payload option \<Rightarrow> string option \<Rightarrow> string option \<Rightarrow> error + ('t, 'n) frame" where
  "parse_time_series generate_demo_stock_data read_datetime read_number response symbol interval =
     (if \<not> truthy response
      then Inr (demo_or_empty generate_demo_stock_data symbol interval)
      else
        (case time_series_key (the response) of
           None \<Rightarrow> Inr (demo_or_empty generate_demo_stock_data symbol interval)
         | Some key \<Rightarrow>
             (case map_of (the response) key of
                None \<Rightarrow> Inl KeyError
              | Some time_series \<Rightarrow> build_frame read_datetime read_number time_series)))"

section \<open>Readers used in the examples\<close>

text \<open>
  Two concrete readers to run the functions on: an unsigned decimal numeral, and a
  timestamp \<^verbatim>\<open>YYYY-MM-DD HH:MM:SS\<close> read as the number its fourteen digits spell.
\<close>

definition digit_of :: "char \<Rightarrow> nat option" where
  "digit_of c = map_of (zip ''0123456789'' [0, 1, 2, 3, 4, 5, 6, 7, 8, 9]) c"

definition read_nat :: "string \<Rightarrow> nat option" where
  "read_nat s =
     (if s = [] then None
      else map_option (foldl (\<lambda>n d. 10 * n + d) 0) (every (map digit_of s)))"

definition read_stamp :: "string \<Rightarrow> nat option" where
  "read_stamp s =
     (if length s = 19 \<and> s ! 4 = CHR ''-'' \<and> s ! 7 = CHR ''-'' \<and> s ! 10 = CHR '' ''
         \<and> s ! 13 = CHR '':'' \<and> s ! 16 = CHR '':''
      then read_nat (take 4 s @ take 2 (drop 5 s) @ take 2 (drop 8 s) @ take 2 (drop 11 s)
                     @ take 2 (drop 14 s) @ take 2 (drop 17 s))
      else None)"

text \<open>A configuration and a demo-data generator to run the functions with.\<close>

definition sample_config :: config where
  "sample_config =
     \<lparr>ALPHA_VANTAGE_BASE_URL = ''https://www.alphavantage.co/query'',
      ALPHA_VANTAGE_API_KEY = ''demo''\<rparr>"

definition sample_generator :: "string \<Rightarrow> string \<Rightarrow> (nat, nat) frame" where
  "sample_generator symbol interval =
     \<lparr>index_name = Some ''timestamp'',
      columns = [''open'', ''high'', ''low'', ''close'', ''volume''],
      rows = [(20240102093000,
               [Number 100, Number 101, Number 99, Number 100,
                Number (length symbol + length interval)])]\<rparr>"

text \<open>A row object in the provider's format; its volume field is the argument.\<close>

definition sample_fields :: "string \<Rightarrow> fields" where
  "sample_fields volume =
     [(''1. open'', ''101''), (''2. high'', ''105''), (''3. low'', ''99''),
      (''4. close'', ''103''), (''5. volume'', volume)]"

section \<open>Properties of the Fetcher\<close>

lemma except_fallback: "\<exists>msg. except symbol e = Inr ([msg], Fallback)"
  by (cases e) (simp_all add: Fallback_def)

lemma try_block_cases:
  "try_block cfg get symbol interval k = Inr data \<longleftrightarrow>
     (\<exists>status. send cfg get symbol interval k = Response status (Decoded data)
        \<and> \<not> (400 \<le> status \<and> status < 600)
        \<and> ''Error Message'' \<notin> set (map fst data) \<and> ''Note'' \<notin> set (map fst data))"
  by (auto simp: try_block_def and_then_def raise_for_status_def json_of_def
        split: reply.splits body.splits sum.splits if_splits)

lemma fetch_payload_iff:
  "fetch_intraday_data cfg get symbol interval api_key = Inr (msgs, Payload data) \<longleftrightarrow>
     msgs = [] \<and> try_block cfg get symbol interval (credential cfg api_key) = Inr data"
proof (cases "try_block cfg get symbol interval (credential cfg api_key)")
  case (Inl e)
  obtain msg where "except symbol e = Inr ([msg], Fallback)"
    using except_fallback by blast
  with Inl show ?thesis
    by (simp add: fetch_intraday_data_def Payload_def Fallback_def)
next
  case (Inr d)
  then show ?thesis
    by (auto simp: fetch_intraday_data_def Payload_def)
qed

text \<open>
  C1. For every symbol, interval and credential (and whatever the transport does),
  \<open>fetch_intraday_data\<close> returns: no exception leaves it, and what it returns is
  \<open>Fallback\<close> or \<open>Payload data\<close>.
\<close>

theorem fetch_never_raises:
  "\<exists>msgs out. fetch_intraday_data cfg get symbol interval api_key = Inr (msgs, out)
      \<and> (out = Fallback \<or> (\<exists>data. out = Payload data))"
proof (cases "try_block cfg get symbol interval (credential cfg api_key)")
  case (Inl e)
  obtain msg where "except symbol e = Inr ([msg], Fallback)"
    using except_fallback by blast
  with Inl show ?thesis
    by (simp add: fetch_intraday_data_def)
next
  case (Inr data)
  then show ?thesis
    by (simp add: fetch_intraday_data_def Payload_def)
qed

text \<open>
  C6, as amended. When the request ends in a connection failure, in a timeout, or in a
  response whose status is a client or server error (from 400 to 599: 401, 429 or any
  other), the outcome is \<open>Fallback\<close>. Status 401, status 429 and the other error statuses
  differ in the printed line only.
\<close>

theorem fetch_failure_is_fallback:
  assumes "send cfg get symbol interval (credential cfg api_key) = r"
  shows "(r = Refused \<longrightarrow>
            fetch_intraday_data cfg get symbol interval api_key
              = Inr ([NetworkConnectionError symbol], Fallback))
       \<and> (r = TimedOut \<longrightarrow>
            fetch_intraday_data cfg get symbol interval api_key
              = Inr ([RequestTimedOut symbol], Fallback))
       \<and> (\<forall>status b. r = Response status b \<and> 400 \<le> status \<and> status < 600 \<longrightarrow>
            fetch_intraday_data cfg get symbol interval api_key
              = Inr ([if status = 401 then InvalidApiKey symbol
                      else if status = 429 then RateLimitExceeded symbol
                      else HttpErrorOccurred (HTTPError status) symbol], Fallback))"
  using assms
  by (auto simp: fetch_intraday_data_def try_block_def and_then_def raise_for_status_def
        Fallback_def)

theorem fetch_failure_is_fallback_witness:
  "fetch_intraday_data sample_config (\<lambda>url params timeout. Response 401 Undecodable)
       ''IBM'' ''5min'' None
     = Inr ([InvalidApiKey ''IBM''], Fallback)
   \<and> fetch_intraday_data sample_config (\<lambda>url params timeout. Response 429 (Decoded []))
       ''IBM'' ''5min'' None
     = Inr ([RateLimitExceeded ''IBM''], Fallback)
   \<and> fetch_intraday_data sample_config (\<lambda>url params timeout. Response 503 (Decoded []))
       ''IBM'' ''5min'' None
     = Inr ([HttpErrorOccurred (HTTPError 503) ''IBM''], Fallback)
   \<and> fetch_intraday_data sample_config (\<lambda>url params timeout. Refused)
       ''IBM'' ''5min'' (Some ''key'')
     = Inr ([NetworkConnectionError ''IBM''], Fallback)
   \<and> fetch_intraday_data sample_config (\<lambda>url params timeout. TimedOut)
       ''IBM'' ''5min'' (Some ''key'')
     = Inr ([RequestTimedOut ''IBM''], Fallback)"
  using fetch_failure_is_fallback [of sample_config
          "\<lambda>url params timeout. Response 401 Undecodable"
          "''IBM''" "''5min''" None "Response 401 Undecodable"]
        fetch_failure_is_fallback [of sample_config
          "\<lambda>url params timeout. Response 429 (Decoded [])"
          "''IBM''" "''5min''" None "Response 429 (Decoded [])"]
        fetch_failure_is_fallback [of sample_config
          "\<lambda>url params timeout. Response 503 (Decoded [])"
          "''IBM''" "''5min''" None "Response 503 (Decoded [])"]
        fetch_failure_is_fallback [of sample_config "\<lambda>url params timeout. Refused"
          "''IBM''" "''5min''" "Some ''key''" Refused]
        fetch_failure_is_fallback [of sample_config "\<lambda>url params timeout. TimedOut"
          "''IBM''" "''5min''" "Some ''key''" TimedOut]
  by (simp add: send_def)

text \<open>
  C6 as stated fails: status 300 is not a 2xx status, and a response with status 300
  whose body decodes and has no marker key gives \<open>Payload\<close>, not \<open>Fallback\<close>.
\<close>

theorem non_2xx_status_counterexample:
  "\<not> (200 \<le> (300::nat) \<and> (300::nat) < 300)
   \<and> fetch_intraday_data sample_config
        (\<lambda>url params timeout. Response 300 (Decoded [(''Time Series (5min)'', JSeries [])]))
        ''IBM'' ''5min'' None
      = Inr ([], Payload [(''Time Series (5min)'', JSeries [])])
   \<and> Payload [(''Time Series (5min)'', JSeries [])] \<noteq> Fallback"
  by (simp add: fetch_intraday_data_def try_block_def send_def and_then_def raise_for_status_def
        json_of_def Payload_def Fallback_def)

text \<open>
  C7, as amended. A decoded body with a key \<^verbatim>\<open>Error Message\<close> or a key \<^verbatim>\<open>Note\<close> gives
  \<open>Fallback\<close>, whatever the status. \<open>Payload data\<close> is returned only when the response
  has a status that is not a client or server error (not from 400 to 599), its body
  decodes to \<open>data\<close>, and \<open>data\<close> has neither marker key.
\<close>

theorem markers_and_payload:
  "(send cfg get symbol interval (credential cfg api_key) = Response status (Decoded body_data)
      \<and> (''Error Message'' \<in> set (map fst body_data) \<or> ''Note'' \<in> set (map fst body_data))
     \<longrightarrow> (\<exists>msg. fetch_intraday_data cfg get symbol interval api_key = Inr ([msg], Fallback)))
   \<and> (fetch_intraday_data cfg get symbol interval api_key = Inr (msgs, Payload data)
     \<longrightarrow> (\<exists>status. send cfg get symbol interval (credential cfg api_key)
                      = Response status (Decoded data)
            \<and> \<not> (400 \<le> status \<and> status < 600)
            \<and> ''Error Message'' \<notin> set (map fst data) \<and> ''Note'' \<notin> set (map fst data)))"
proof (intro conjI impI)
  assume a: "send cfg get symbol interval (credential cfg api_key)
               = Response status (Decoded body_data)
      \<and> (''Error Message'' \<in> set (map fst body_data) \<or> ''Note'' \<in> set (map fst body_data))"
  show "\<exists>msg. fetch_intraday_data cfg get symbol interval api_key = Inr ([msg], Fallback)"
  proof (cases "try_block cfg get symbol interval (credential cfg api_key)")
    case (Inl e)
    then show ?thesis
      using except_fallback [of symbol e] by (simp add: fetch_intraday_data_def)
  next
    case (Inr d)
    with a show ?thesis
      by (auto simp: try_block_cases)
  qed
next
  assume "fetch_intraday_data cfg get symbol interval api_key = Inr (msgs, Payload data)"
  then have "try_block cfg get symbol interval (credential cfg api_key) = Inr data"
    by (simp add: fetch_payload_iff)
  then show "\<exists>status. send cfg get symbol interval (credential cfg api_key)
                      = Response status (Decoded data)
            \<and> \<not> (400 \<le> status \<and> status < 600)
            \<and> ''Error Message'' \<notin> set (map fst data) \<and> ''Note'' \<notin> set (map fst data)"
    by (simp add: try_block_cases)
qed

theorem markers_and_payload_witness:
  "(\<exists>msg. fetch_intraday_data sample_config
        (\<lambda>url params timeout. Response 200 (Decoded [(''Note'', JOther)])) ''IBM'' ''5min'' None
      = Inr ([msg], Fallback))
   \<and> (\<exists>msg. fetch_intraday_data sample_config
        (\<lambda>url params timeout. Response 404 (Decoded [(''Error Message'', JOther)]))
        ''IBM'' ''5min'' None
      = Inr ([msg], Fallback))
   \<and> fetch_intraday_data sample_config
        (\<lambda>url params timeout. Response 200 (Decoded [(''Meta Data'', JOther)])) ''IBM'' ''5min'' None
      = Inr ([], Payload [(''Meta Data'', JOther)])
   \<and> (\<exists>status. send sample_config
          (\<lambda>url params timeout. Response 200 (Decoded [(''Meta Data'', JOther)])) ''IBM'' ''5min''
          (credential sample_config None)
        = Response status (Decoded [(''Meta Data'', JOther)])
      \<and> \<not> (400 \<le> status \<and> status < 600))"
  using markers_and_payload [of sample_config
          "\<lambda>url params timeout. Response 200 (Decoded [(''Note'', JOther)])"
          "''IBM''" "''5min''" None 200 "[(''Note'', JOther)]" "[]" "[]"]
        markers_and_payload [of sample_config
          "\<lambda>url params timeout. Response 404 (Decoded [(''Error Message'', JOther)])"
          "''IBM''" "''5min''" None 404 "[(''Error Message'', JOther)]" "[]" "[]"]
        markers_and_payload [of sample_config
          "\<lambda>url params timeout. Response 200 (Decoded [(''Meta Data'', JOther)])"
          "''IBM''" "''5min''" None 200 "[]" "[]" "[(''Meta Data'', JOther)]"]
  by (simp add: send_def fetch_intraday_data_def try_block_def and_then_def raise_for_status_def
        json_of_def Payload_def Fallback_def)

text \<open>
  C7 as stated fails in its second half: \<open>Payload\<close> is returned for a response whose
  status, 305, is not a success status.
\<close>

theorem payload_on_redirect_status_counterexample:
  "fetch_intraday_data sample_config
        (\<lambda>url params timeout. Response 305 (Decoded [(''Meta Data'', JOther)]))
        ''AAPL'' ''15min'' (Some ''key'')
      = Inr ([], Payload [(''Meta Data'', JOther)])
   \<and> \<not> (200 \<le> (305::nat) \<and> (305::nat) < 300)"
  by (simp add: fetch_intraday_data_def try_block_def send_def and_then_def raise_for_status_def
        json_of_def Payload_def)

text \<open>
  The converse of the second half of C7 does not hold: a body that decodes to
  \<^verbatim>\<open>null\<close>, a number or a boolean has no marker key, and the outcome is \<open>Fallback\<close>
  at every status.
\<close>

lemma scalar_body_is_fallback:
  assumes "send cfg get symbol interval (credential cfg api_key) = Response status DecodedScalar"
  shows "\<exists>msg. fetch_intraday_data cfg get symbol interval api_key = Inr ([msg], Fallback)"
proof (cases "try_block cfg get symbol interval (credential cfg api_key)")
  case (Inl e)
  then show ?thesis
    using except_fallback [of symbol e] by (simp add: fetch_intraday_data_def)
next
  case (Inr d)
  with assms show ?thesis
    by (auto simp: try_block_cases)
qed

section \<open>Properties of the Normalizer: no usable payload\<close>

lemma time_series_key_None:
  "time_series_key response = None
     \<longleftrightarrow> (\<forall>k \<in> set (map fst response). \<not> prefix ''Time Series'' k)"
  by (simp add: time_series_key_def find_None_iff)

lemma parse_without_key:
  "time_series_key response = None \<Longrightarrow>
     parse_time_series g rd rn (Some response) symbol interval
       = Inr (demo_or_empty g symbol interval)"
  by (simp add: parse_time_series_def)

lemma parse_None:
  "parse_time_series g rd rn None symbol interval = Inr (demo_or_empty g symbol interval)"
  by (simp add: parse_time_series_def truthy_def)

text \<open>
  C4. On the \<open>Fallback\<close> outcome (the response \<^verbatim>\<open>None\<close>): with a symbol and an interval,
  both non-empty strings, \<open>parse_time_series\<close> returns the generator's frame for that
  pair unchanged; when the symbol or the interval is not supplied it returns the empty
  frame.
\<close>

theorem fallback_table:
  "(s \<noteq> [] \<and> i \<noteq> [] \<longrightarrow>
      parse_time_series g rd rn (fst Fallback) (Some s) (Some i) = Inr (g s i))
   \<and> (symbol = None \<or> interval = None \<longrightarrow>
      parse_time_series g rd rn (fst Fallback) symbol interval = Inr DataFrame)"
  by (auto simp: Fallback_def parse_None demo_or_empty_def truthy_def)

theorem fallback_table_witness:
  "parse_time_series sample_generator read_stamp read_nat (fst Fallback)
       (Some ''AAPL'') (Some ''5min'')
     = Inr (sample_generator ''AAPL'' ''5min'')
   \<and> parse_time_series sample_generator read_stamp read_nat (fst Fallback) None None
     = Inr DataFrame
   \<and> parse_time_series sample_generator read_stamp read_nat (fst Fallback) (Some ''AAPL'') None
     = Inr DataFrame"
  using fallback_table [of "''AAPL''" "''5min''" sample_generator read_stamp read_nat None None]
        fallback_table [of "''AAPL''" "''5min''" sample_generator read_stamp read_nat
          "Some ''AAPL''" None]
  by simp

text \<open>
  C8. A non-empty payload with no key that starts with \<^verbatim>\<open>Time Series\<close> is treated
  exactly as \<open>Fallback\<close> is: the generator's frame when a non-empty symbol and a non-empty
  interval are given, the empty frame when one of them is not supplied.
\<close>

theorem no_time_series_key:
  assumes "response \<noteq> []"
    and "\<forall>k \<in> set (map fst response). \<not> prefix ''Time Series'' k"
  shows "parse_time_series g rd rn (Some response) symbol interval
           = parse_time_series g rd rn (fst Fallback) symbol interval
       \<and> (\<forall>s i. symbol = Some s \<and> interval = Some i \<and> s \<noteq> [] \<and> i \<noteq> [] \<longrightarrow>
            parse_time_series g rd rn (Some response) symbol interval = Inr (g s i))
       \<and> (symbol = None \<or> interval = None \<longrightarrow>
            parse_time_series g rd rn (Some response) symbol interval = Inr DataFrame)"
proof -
  from assms(2) have "time_series_key response = None"
    by (simp add: time_series_key_None)
  then show ?thesis
    by (auto simp: parse_without_key parse_None Fallback_def demo_or_empty_def truthy_def)
qed

theorem no_time_series_key_witness:
  "parse_time_series sample_generator read_stamp read_nat
       (Some [(''Information'', JOther), (''Meta Data'', JOther)]) (Some ''MSFT'') (Some ''1min'')
     = parse_time_series sample_generator read_stamp read_nat (fst Fallback)
         (Some ''MSFT'') (Some ''1min'')
   \<and> parse_time_series sample_generator read_stamp read_nat
       (Some [(''Information'', JOther), (''Meta Data'', JOther)]) (Some ''MSFT'') (Some ''1min'')
     = Inr (sample_generator ''MSFT'' ''1min'')
   \<and> parse_time_series sample_generator read_stamp read_nat
       (Some [(''Information'', JOther), (''Meta Data'', JOther)]) None (Some ''1min'')
     = Inr DataFrame"
  using no_time_series_key [of "[(''Information'', JOther), (''Meta Data'', JOther)]"
          sample_generator read_stamp read_nat "Some ''MSFT''" "Some ''1min''"]
        no_time_series_key [of "[(''Information'', JOther), (''Meta Data'', JOther)]"
          sample_generator read_stamp read_nat None "Some ''1min''"]
  by (simp add: parse_None Fallback_def demo_or_empty_def truthy_def)

text \<open>
  C10. A response with a success status whose body decodes to the empty dict gives the
  outcome \<open>Payload []\<close>, which is not \<open>Fallback\<close>; and for every symbol and interval
  \<open>parse_time_series\<close> returns for it what it returns for \<open>Fallback\<close>.
\<close>

theorem empty_body_is_payload:
  assumes "send cfg get symbol interval (credential cfg api_key) = Response status (Decoded [])"
    and "200 \<le> status \<and> status < 300"
  shows "fetch_intraday_data cfg get symbol interval api_key = Inr ([], Payload [])
       \<and> Payload [] \<noteq> Fallback
       \<and> (\<forall>s i. parse_time_series g rd rn (fst (Payload [])) s i
                 = parse_time_series g rd rn (fst Fallback) s i)"
  using assms
  by (simp add: fetch_intraday_data_def try_block_def and_then_def raise_for_status_def
        json_of_def Payload_def Fallback_def parse_time_series_def truthy_def)

theorem empty_body_is_payload_witness:
  "fetch_intraday_data sample_config (\<lambda>url params timeout. Response 200 (Decoded []))
       ''IBM'' ''5min'' None
     = Inr ([], Payload [])
   \<and> Payload [] \<noteq> Fallback
   \<and> parse_time_series sample_generator read_stamp read_nat (fst (Payload []))
       (Some ''IBM'') (Some ''5min'')
     = parse_time_series sample_generator read_stamp read_nat (fst Fallback)
         (Some ''IBM'') (Some ''5min'')"
  using empty_body_is_payload [of sample_config "\<lambda>url params timeout. Response 200 (Decoded [])"
          "''IBM''" "''5min''" None 200 sample_generator read_stamp read_nat]
  by (simp add: send_def)

section \<open>Reading a whole list\<close>

lemma every_eq_None_iff: "every xs = None \<longleftrightarrow> None \<in> set xs"
  by (induction xs rule: every.induct) auto

lemma every_eq_Some_iff: "every xs = Some ys \<longleftrightarrow> xs = map Some ys"
  by (induction xs arbitrary: ys rule: every.induct) auto

lemma every_length: "every xs = Some ys \<Longrightarrow> length ys = length xs"
  by (auto simp: every_eq_Some_iff)

lemma every_map_cong:
  "(\<And>x. x \<in> set xs \<Longrightarrow> f x = g x) \<Longrightarrow> every (map f xs) = every (map g xs)"
  by (rule arg_cong [where f = every]) simp

text \<open>Two passes over a list, each of which may fail, are one pass.\<close>

lemma every_map_bind:
  "Option.bind (every (map f xs)) (\<lambda>ys. every (map g ys))
     = every (map (\<lambda>x. Option.bind (f x) g) xs)"
proof (induction xs)
  case Nil
  then show ?case by simp
next
  case (Cons x xs)
  show ?case
  proof (cases "f x")
    case None
    then show ?thesis by simp
  next
    case (Some y)
    note fx = Some
    show ?thesis
    proof (cases "every (map f xs)")
      case None
      with Cons fx show ?thesis
        by (cases "g y") auto
    next
      case (Some ys)
      with Cons fx show ?thesis
        by (cases "g y") (auto simp: option.map_comp)
    qed
  qed
qed

lemma every_zip:
  "length xs = length ys \<Longrightarrow>
     every (map (\<lambda>(i, y). map_option (Pair i) (f y)) (zip xs ys))
       = map_option (zip xs) (every (map f ys))"
proof (induction xs ys rule: list_induct2)
  case Nil
  then show ?case by simp
next
  case (Cons x xs y ys)
  then show ?case
    by (cases "f y"; cases "every (map f ys)") (simp_all add: option.map_comp)
qed

lemma case_bind:
  "(case m of None \<Rightarrow> a | Some x \<Rightarrow> (case f x of None \<Rightarrow> a | Some y \<Rightarrow> k y))
     = (case Option.bind m f of None \<Rightarrow> a | Some y \<Rightarrow> k y)"
  by (cases m) simp_all

section \<open>The five numeric columns\<close>

text \<open>Converting column \<open>j\<close> is one pass over the rows.\<close>

lemma every_column:
  "every (map (\<lambda>(i, cs). map_option (\<lambda>c. (i, cs[j := c])) (f (cs ! j))) rs)
     = map_option (\<lambda>col. map (\<lambda>((i, cs), c). (i, cs[j := c])) (zip rs col))
         (every (map f (map (\<lambda>(i, cs). cs ! j) rs)))"
proof (induction rs)
  case Nil
  then show ?case by simp
next
  case (Cons r rs)
  obtain i cs where r: "r = (i, cs)" by (cases r)
  show ?case
  proof (cases "f (cs ! j)")
    case None
    with r show ?thesis by simp
  next
    case (Some c)
    with r Cons show ?thesis
      by (cases "every (map f (map (\<lambda>(i, cs). cs ! j) rs))") (simp_all add: option.map_comp)
  qed
qed

lemma numeric_column_eq:
  assumes "position name (columns df) = Some j"
  shows "and_then (numeric_column rn name df) k
           = (case every (map (\<lambda>(i, cs). map_option (\<lambda>c. (i, cs[j := c]))
                                   (numeric_cell rn (cs ! j))) (rows df)) of
                None \<Rightarrow> Inl BadNumber
              | Some rs \<Rightarrow> k (df\<lparr>rows := rs\<rparr>))"
  using assms
  by (simp add: numeric_column_def getitem_def to_numeric_def setitem_def and_then_def
        every_column split: option.splits)

text \<open>
  On a frame with the five column names and five cells in every row, the five conversions
  of lines 109 to 113 succeed exactly when every cell can be read, and then every cell is
  converted.
\<close>

lemma five_columns:
  assumes cols: "columns (df :: ('i, 'n) frame) = [''open'', ''high'', ''low'', ''close'', ''volume'']"
    and width: "\<forall>r \<in> set (rows df). length (snd r) = 5"
  shows "and_then (numeric_column rn ''open'' df) (\<lambda>df.
         and_then (numeric_column rn ''high'' df) (\<lambda>df.
         and_then (numeric_column rn ''low'' df) (\<lambda>df.
         and_then (numeric_column rn ''close'' df) (\<lambda>df.
         and_then (numeric_column rn ''volume'' df) (k :: ('i, 'n) frame \<Rightarrow> error + 'r)))))
       = (case every (map (\<lambda>(i, cs). map_option (Pair i) (every (map (numeric_cell rn) cs)))
                        (rows df)) of
            None \<Rightarrow> Inl BadNumber
          | Some rs \<Rightarrow> k (df\<lparr>rows := rs\<rparr>))"
proof -
  define S :: "nat \<Rightarrow> 'i \<times> 'n cell list \<Rightarrow> ('i \<times> 'n cell list) option" where
    "S j = (\<lambda>(i, cs). map_option (\<lambda>c. (i, cs[j := c])) (numeric_cell rn (cs ! j)))" for j :: nat
  have step: "and_then (numeric_column rn name d) k'
           = (case every (map (S j) (rows d)) of
                None \<Rightarrow> Inl BadNumber
              | Some rs \<Rightarrow> k' (d\<lparr>rows := rs\<rparr>))"
    if "position name (columns d) = Some j"
    for name j and k' :: "('i, 'n) frame \<Rightarrow> error + 'r" and d :: "('i, 'n) frame"
    using that by (simp add: numeric_column_eq S_def)
  let ?F = "\<lambda>x. Option.bind (S 0 x) (\<lambda>x. Option.bind (S (Suc 0) x) (\<lambda>x.
              Option.bind (S (Suc (Suc 0)) x) (\<lambda>x. Option.bind (S (Suc (Suc (Suc 0))) x)
                (S (Suc (Suc (Suc (Suc 0))))))))"
  have "and_then (numeric_column rn ''open'' df) (\<lambda>df.
         and_then (numeric_column rn ''high'' df) (\<lambda>df.
         and_then (numeric_column rn ''low'' df) (\<lambda>df.
         and_then (numeric_column rn ''close'' df) (\<lambda>df.
         and_then (numeric_column rn ''volume'' df) k))))
      = (case every (map (S 0) (rows df)) of None \<Rightarrow> Inl BadNumber | Some r1 \<Rightarrow>
        (case every (map (S (Suc 0)) r1) of None \<Rightarrow> Inl BadNumber | Some r2 \<Rightarrow>
        (case every (map (S (Suc (Suc 0))) r2) of None \<Rightarrow> Inl BadNumber | Some r3 \<Rightarrow>
        (case every (map (S (Suc (Suc (Suc 0)))) r3) of None \<Rightarrow> Inl BadNumber | Some r4 \<Rightarrow>
        (case every (map (S (Suc (Suc (Suc (Suc 0))))) r4) of None \<Rightarrow> Inl BadNumber | Some r5 \<Rightarrow>
           k (df\<lparr>rows := r5\<rparr>))))))"
    by (simp add: step [of _ _ 0] step [of _ _ "Suc 0"] step [of _ _ "Suc (Suc 0)"]
          step [of _ _ "Suc (Suc (Suc 0))"] step [of _ _ "Suc (Suc (Suc (Suc 0)))"] cols
          cong: option.case_cong)
  also have "\<dots> = (case every (map ?F (rows df)) of
                     None \<Rightarrow> Inl BadNumber | Some rs \<Rightarrow> k (df\<lparr>rows := rs\<rparr>))"
    by (simp only: case_bind every_map_bind)
  also have "every (map ?F (rows df))
      = every (map (\<lambda>(i, cs). map_option (Pair i) (every (map (numeric_cell rn) cs))) (rows df))"
  proof (rule every_map_cong)
    fix x assume "x \<in> set (rows df)"
    with width have w: "length (snd x) = 5" by blast
    obtain i cs where x: "x = (i, cs)" by (cases x)
    from w x obtain a b c d e where cs: "cs = [a, b, c, d, e]"
      by (auto simp: length_Suc_conv eval_nat_numeral)
    show "?F x = (case x of (i, cs) \<Rightarrow> map_option (Pair i) (every (map (numeric_cell rn) cs)))"
      unfolding x cs S_def
      by (cases "numeric_cell rn a"; cases "numeric_cell rn b"; cases "numeric_cell rn c";
          cases "numeric_cell rn d"; cases "numeric_cell rn e") simp_all
  qed
  finally show ?thesis .
qed

section \<open>What \<open>build_frame\<close> computes\<close>

lemma set_index_rows:
  "length idx = length ks \<Longrightarrow>
     map (\<lambda>(j, (i, cs)). (j, cs)) (zip idx (map (\<lambda>k. (k, h k)) ks)) = zip idx (map h ks)"
  by (induction idx ks rule: list_induct2) simp_all

text \<open>
  The outcome of lines 96 to 118 on a dict of row objects, in terms of the frame that
  \<open>from_dict\<close> builds: the column count is checked first, then the index is read, then
  the cells, and the rows are sorted.
\<close>

lemma build_frame_series:
  fixes rd :: "string \<Rightarrow> 't::linorder option" and rn :: "string \<Rightarrow> 'n option"
  shows "build_frame rd rn (JSeries time_series) =
     (if length (frame_columns time_series) \<noteq> 5 then Inl LengthMismatch
      else
        (case every (map rd (frame_index time_series)) of
           None \<Rightarrow> Inl BadTimestamp
         | Some idx \<Rightarrow>
             (case every (map (\<lambda>k. every (map (\<lambda>c. numeric_cell rn (frame_cell time_series k c))
                                                  (frame_columns time_series)))
                              (frame_index time_series)) of
                None \<Rightarrow> Inl BadNumber
              | Some cells \<Rightarrow>
                  Inr \<lparr>index_name = Some ''timestamp'',
                       columns = [''open'', ''high'', ''low'', ''close'', ''volume''],
                       rows = sort_key fst (zip idx cells)\<rparr>)))"
proof (cases "length (frame_columns time_series) = 5")
  case False
  then show ?thesis
    by (simp add: build_frame_def from_dict_def and_then_def set_columns_def)
next
  case five: True
  show ?thesis
  proof (cases "every (map rd (frame_index time_series))")
    case None
    with five show ?thesis
      by (simp add: build_frame_def from_dict_def and_then_def set_columns_def to_datetime_def
            index_def comp_def)
  next
    case (Some idx)
    then have len: "length idx = length (frame_index time_series)"
      by (auto dest: every_length)
    let ?h = "\<lambda>k. map (frame_cell time_series k) (frame_columns time_series) :: 'n cell list"
    let ?df = "\<lparr>index_name = Some ''timestamp'',
                columns = [''open'', ''high'', ''low'', ''close'', ''volume''],
                rows = zip idx (map ?h (frame_index time_series))\<rparr> :: ('t, 'n) frame"
    have start: "build_frame rd rn (JSeries time_series) =
         and_then (numeric_column rn ''open'' ?df) (\<lambda>df.
         and_then (numeric_column rn ''high'' df) (\<lambda>df.
         and_then (numeric_column rn ''low'' df) (\<lambda>df.
         and_then (numeric_column rn ''close'' df) (\<lambda>df.
         and_then (numeric_column rn ''volume'' df) (\<lambda>df. Inr (sort_index df))))))"
      using five Some len
      by (simp add: build_frame_def from_dict_def and_then_def [of "Inr _"] set_columns_def
            to_datetime_def index_def comp_def set_index_def set_index_rows)
    have width: "\<forall>r \<in> set (rows ?df). length (snd r) = 5"
      using five by (auto dest!: set_zip_rightD)
    have "every (map (\<lambda>(i, cs). map_option (Pair i) (every (map (numeric_cell rn) cs))) (rows ?df))
        = map_option (zip idx)
            (every (map (\<lambda>k. every (map (\<lambda>c. numeric_cell rn (frame_cell time_series k c))
                                         (frame_columns time_series)))
                        (frame_index time_series)))"
      using len every_zip [of idx "map ?h (frame_index time_series)"
                              "\<lambda>cs. every (map (numeric_cell rn) cs)"]
      by (simp add: comp_def)
    then show ?thesis
      using five Some
      by (simp add: start five_columns [OF _ width] sort_index_def split: option.splits)
  qed
qed

lemma time_series_key_nonempty: "time_series_key response = Some key \<Longrightarrow> response \<noteq> []"
  by (auto simp: time_series_key_def)

lemma parse_section:
  assumes "time_series_key response = Some key"
    and "map_of response key = Some section"
  shows "parse_time_series g rd rn (Some response) symbol interval = build_frame rd rn section"
  using assms time_series_key_nonempty [OF assms(1)]
  by (simp add: parse_time_series_def truthy_def)

section \<open>The columns and the index of the frame\<close>

lemma set_first_seen [simp]: "set (first_seen xs) = set xs"
  by (induction xs) auto

lemma first_seen_append:
  "first_seen (xs @ ys) = first_seen xs @ filter (\<lambda>y. y \<notin> set xs) (first_seen ys)"
  by (induction xs) (auto simp: conj_commute)

lemma first_seen_distinct: "distinct xs \<Longrightarrow> first_seen xs = xs"
  by (induction xs) (auto simp: filter_id_conv)

lemma first_seen_absorb:
  assumes "distinct xs" and "set ys \<subseteq> set xs"
  shows "first_seen (xs @ ys) = xs"
proof -
  have "filter (\<lambda>y. y \<notin> set xs) (first_seen ys) = []"
    using assms(2) by (auto simp: filter_empty_conv)
  with assms(1) show ?thesis
    by (simp add: first_seen_append first_seen_distinct)
qed

lemma set_frame_columns:
  "set (frame_columns ts) = {l. \<exists>r \<in> set ts. l \<in> set (map fst (snd r))}"
  by (auto simp: frame_columns_def case_prod_beta)

text \<open>The rows that reach the frame are those with at least one field.\<close>

lemma set_frame_index:
  "set (frame_index ts) = {k. \<exists>r. (k, r) \<in> set ts \<and> r \<noteq> []}"
proof (intro set_eqI iffI)
  fix k assume "k \<in> set (frame_index ts)"
  then obtain r where "(k, r) \<in> set ts" "r \<noteq> []"
    by (fastforce simp: frame_index_def)
  then show "k \<in> {k. \<exists>r. (k, r) \<in> set ts \<and> r \<noteq> []}"
    by auto
next
  fix k assume "k \<in> {k. \<exists>r. (k, r) \<in> set ts \<and> r \<noteq> []}"
  then obtain r where r: "(k, r) \<in> set ts" "r \<noteq> []"
    by auto
  then obtain l v where "(l, v) \<in> set r"
    by (cases r) auto
  with r have "l \<in> set (frame_columns ts)" "l \<in> set (map fst r)"
    by (force simp: set_frame_columns)+
  with r show "k \<in> set (frame_index ts)"
    by (force simp: frame_index_def)
qed

text \<open>
  When every row of a non-empty section has the same labels in the same order, the labels
  are the columns, the row keys are the index, and every cell is the string of its field.
\<close>

lemma uniform_columns:
  assumes "ts \<noteq> []" and "distinct labels" and "\<forall>r \<in> set ts. map fst (snd r) = labels"
  shows "frame_columns ts = labels"
proof -
  from assms(1) obtain k r rest where ts: "ts = (k, r) # rest"
    by (cases ts) auto
  with assms(3) have r: "map fst r = labels"
    and rest: "\<forall>x \<in> set rest. map fst (snd x) = labels"
    by auto
  have "set (concat (map (\<lambda>(k, r). map fst r) rest)) \<subseteq> set labels"
    using rest by (auto simp: case_prod_beta)
  then show ?thesis
    using r assms(2) by (simp add: frame_columns_def ts first_seen_absorb)
qed

lemma uniform_index:
  assumes "ts \<noteq> []" and "distinct labels" and "\<forall>r \<in> set ts. map fst (snd r) = labels"
    and "labels \<noteq> []" and "distinct (map fst ts)"
  shows "frame_index ts = map fst ts"
proof -
  from assms(4) obtain l ls where labels: "labels = l # ls"
    by (cases labels) auto
  have all: "filter (\<lambda>(k, r). l \<in> set (map fst r)) ts = ts"
    using assms(3) by (auto simp: labels filter_id_conv case_prod_beta)
  have "set (concat (map (\<lambda>c. map fst (filter (\<lambda>(k, r). c \<in> set (map fst r)) ts)) ls))
          \<subseteq> set (map fst ts)"
    by auto
  then show ?thesis
    using all assms(5)
    by (simp add: frame_index_def uniform_columns [OF assms(1,2,3)] labels first_seen_absorb)
qed

lemma uniform_cells:
  assumes "ts \<noteq> []" and "distinct labels" and "\<forall>r \<in> set ts. map fst (snd r) = labels"
    and "distinct (map fst ts)" and "(k, r) \<in> set ts"
  shows "map (frame_cell ts k) (frame_columns ts) = map (\<lambda>(l, v). Text v) r"
proof -
  from assms(4,5) have m: "map_of ts k = Some r"
    by simp
  from assms(2,3,5) have r: "map fst r = labels" and d: "distinct (map fst r)"
    by auto
  have "map (frame_cell ts k) (map fst r) = map (\<lambda>(l, v). Text v) r"
    using d by (auto simp: frame_cell_def m)
  then show ?thesis
    by (simp add: uniform_columns [OF assms(1,2,3)] r)
qed

lemma strict_sorted_sort_key:
  assumes "distinct (map f xs)"
  shows "sorted_wrt (<) (map f (sort_key f xs))"
proof -
  have "distinct (map f (sort_key f xs))"
    using assms by (simp add: distinct_map)
  then show ?thesis
    by (simp add: strict_sorted_iff)
qed

section \<open>Properties of the Normalizer: the time-series section\<close>

text \<open>
  C3. The claim is that a time-series section with no entry gives an empty frame. The
  code raises instead: the frame built from the empty dict has no column, and the
  assignment of the five column names fails.
\<close>

theorem empty_section_raises:
  "parse_time_series g rd rn (Some [(''Meta Data'', JOther), (''Time Series (5min)'', JSeries [])])
     symbol interval = Inl LengthMismatch"
  by (simp add: parse_time_series_def truthy_def time_series_key_def build_frame_def from_dict_def
        frame_columns_def set_columns_def and_then_def)

text \<open>
  C2. The claim is that a well-formed section of \<open>N\<close> entries gives a frame of exactly
  \<open>N\<close> rows. For \<open>N = 0\<close> the code raises instead, by the defect of C3: there is no
  frame of zero rows.
\<close>

theorem no_entry_raises:
  "parse_time_series sample_generator read_stamp read_nat
     (Some [(''Time Series (1min)'', JSeries [])]) (Some ''IBM'') (Some ''1min'')
   = Inl LengthMismatch"
  by (simp add: parse_time_series_def truthy_def time_series_key_def build_frame_def from_dict_def
        frame_columns_def set_columns_def and_then_def)

text \<open>
  With at least one entry the code does what C2 says, as far as a reader of one string
  describes pandas. Let the section have \<open>N \<ge> 1\<close> entries, each a row object with the
  same five labels, whose timestamps read as pairwise distinct date-times and whose five
  strings all read as numbers. Then the result is a frame with the columns open, high,
  low, close, volume and exactly \<open>N\<close> rows, in strictly ascending order of the timestamp;
  the rows are those of the section, with the timestamp read as a date-time and each field
  read as a number.
\<close>

lemma well_formed_series:
  fixes rd :: "string \<Rightarrow> 't::linorder option" and rn :: "string \<Rightarrow> 'n option"
  assumes key: "time_series_key response = Some key"
    and sec: "map_of response key = Some (JSeries time_series)"
    and nonempty: "time_series \<noteq> []"
    and keys: "distinct (map fst time_series)"
    and labels: "length labels = 5 \<and> distinct labels"
    and fields: "\<forall>r \<in> set time_series. map fst (snd r) = labels"
    and stamps: "\<forall>k \<in> set (map fst time_series). rd k \<noteq> None"
    and instants: "distinct (map rd (map fst time_series))"
    and numbers: "\<forall>r \<in> set time_series. \<forall>f \<in> set (snd r). rn (snd f) \<noteq> None"
  shows "\<exists>df. parse_time_series g rd rn (Some response) symbol interval = Inr df
           \<and> index_name df = Some ''timestamp''
           \<and> columns df = [''open'', ''high'', ''low'', ''close'', ''volume'']
           \<and> length (rows df) = length time_series
           \<and> sorted_wrt (<) (map fst (rows df))
           \<and> set (rows df)
               = (\<lambda>(k, r). (the (rd k), map (\<lambda>(l, v). Number (the (rn v))) r)) ` set time_series"
proof -
  let ?G = "\<lambda>r :: fields. map (\<lambda>(l, v). Number (the (rn v)) :: 'n cell) r"
  let ?row = "\<lambda>(k, r). (the (rd k), ?G r)"
  from labels have dl: "distinct labels" and nl: "labels \<noteq> []"
    by auto
  note cols_eq = uniform_columns [OF nonempty dl fields]
  note index_eq = uniform_index [OF nonempty dl fields nl keys]
  have cols: "length (frame_columns time_series) = 5"
    using labels by (simp add: cols_eq)
  have idx: "every (map rd (frame_index time_series))
           = Some (map (\<lambda>(k, r). the (rd k)) time_series)"
    using stamps by (simp add: index_eq every_eq_Some_iff case_prod_beta)
  have cells: "every (map (\<lambda>k. every (map (\<lambda>c. numeric_cell rn (frame_cell time_series k c))
                                         (frame_columns time_series)))
                        (frame_index time_series))
             = Some (map (\<lambda>(k, r). ?G r) time_series)"
  proof -
    have "every (map (\<lambda>c. numeric_cell rn (frame_cell time_series k c)) (frame_columns time_series))
            = Some (?G r)" if "(k, r) \<in> set time_series" for k r
    proof -
      have "map (\<lambda>c. numeric_cell rn (frame_cell time_series k c)) (frame_columns time_series)
          = map (numeric_cell rn) (map (frame_cell time_series k) (frame_columns time_series))"
        by (simp add: comp_def)
      also have "\<dots> = map (numeric_cell rn) (map (\<lambda>(l, v). Text v) r)"
        by (simp only: uniform_cells [OF nonempty dl fields keys that])
      also have "\<dots> = map Some (?G r)"
      proof -
        have "rn v = Some (the (rn v))" if "(l, v) \<in> set r" for l v
          using numbers \<open>(k, r) \<in> set time_series\<close> that by fastforce
        then show ?thesis
          by (auto simp: numeric_cell_def)
      qed
      finally show ?thesis
        by (simp add: every_eq_Some_iff)
    qed
    then show ?thesis
      by (auto simp: index_eq every_eq_Some_iff)
  qed
  have zipped: "zip (map (\<lambda>(k, r). the (rd k)) time_series) (map (\<lambda>(k, r). ?G r) time_series)
              = map ?row time_series"
    by (induction time_series) auto
  have "inj_on the (set (map rd (map fst time_series)))"
  proof (rule inj_onI)
    fix x y :: "'t option"
    assume "x \<in> set (map rd (map fst time_series))" "y \<in> set (map rd (map fst time_series))"
      and eq: "the x = the y"
    with stamps have "x \<noteq> None" "y \<noteq> None"
      by auto
    with eq show "x = y"
      by (auto simp: option.expand)
  qed
  with instants have "distinct (map the (map rd (map fst time_series)))"
    by (simp only: distinct_map)
  then have d: "distinct (map fst (map ?row time_series))"
    by (simp add: comp_def case_prod_beta)
  have "parse_time_series g rd rn (Some response) symbol interval
      = Inr \<lparr>index_name = Some ''timestamp'',
             columns = [''open'', ''high'', ''low'', ''close'', ''volume''],
             rows = sort_key fst (map ?row time_series)\<rparr>"
    by (simp add: parse_section [OF key sec] build_frame_series cols idx cells zipped)
  with d show ?thesis
    by (simp add: strict_sorted_sort_key)
qed

lemma read_examples:
  "read_stamp ''2024-01-02 10:05:00'' = Some 20240102100500"
  "read_stamp ''2024-01-02 10:00:00'' = Some 20240102100000"
  "read_stamp ''yesterday'' = None"
  "read_nat ''101'' = Some 101" "read_nat ''105'' = Some 105" "read_nat ''99'' = Some 99"
  "read_nat ''103'' = Some 103" "read_nat ''1200'' = Some 1200" "read_nat ''900'' = Some 900"
  "read_nat ''n/a'' = None"
  by (simp_all add: read_stamp_def read_nat_def digit_of_def)

lemma well_formed_series_example:
  "\<exists>df. parse_time_series sample_generator read_stamp read_nat
          (Some [(''Meta Data'', JOther),
                 (''Time Series (5min)'',
                  JSeries [(''2024-01-02 10:05:00'', sample_fields ''1200''),
                           (''2024-01-02 10:00:00'', sample_fields ''900'')])])
          (Some ''IBM'') (Some ''5min'') = Inr df
     \<and> index_name df = Some ''timestamp''
     \<and> columns df = [''open'', ''high'', ''low'', ''close'', ''volume'']
     \<and> length (rows df) = 2
     \<and> sorted_wrt (<) (map fst (rows df))
     \<and> set (rows df)
         = {(20240102100500, [Number 101, Number 105, Number 99, Number 103, Number 1200]),
            (20240102100000, [Number 101, Number 105, Number 99, Number 103, Number 900])}"
  using well_formed_series [of
          "[(''Meta Data'', JOther),
            (''Time Series (5min)'',
             JSeries [(''2024-01-02 10:05:00'', sample_fields ''1200''),
                      (''2024-01-02 10:00:00'', sample_fields ''900'')])]"
          "''Time Series (5min)''"
          "[(''2024-01-02 10:05:00'', sample_fields ''1200''),
            (''2024-01-02 10:00:00'', sample_fields ''900'')]"
          "[''1. open'', ''2. high'', ''3. low'', ''4. close'', ''5. volume'']"
          read_stamp read_nat sample_generator "Some ''IBM''" "Some ''5min''"]
  by (simp add: time_series_key_def sample_fields_def read_examples numeral_2_eq_2)

text \<open>
  A malformed row that has at least one field makes the code raise. Let the section have
  a row with a field that does not read as a number, or a row with at least one field
  whose timestamp does not read as a date-time. Then \<open>parse_time_series\<close> raises: it
  returns neither a frame without that row nor demo data.
\<close>

lemma malformed_series_raises:
  fixes rd :: "string \<Rightarrow> 't::linorder option" and rn :: "string \<Rightarrow> 'n option"
  assumes key: "time_series_key response = Some key"
    and sec: "map_of response key = Some (JSeries time_series)"
    and keys: "distinct (map fst time_series)"
    and labels: "\<forall>r \<in> set time_series. distinct (map fst (snd r))"
    and bad: "(\<exists>r \<in> set time_series. \<exists>f \<in> set (snd r). rn (snd f) = None)
            \<or> (\<exists>r \<in> set time_series. snd r \<noteq> [] \<and> rd (fst r) = None)"
  shows "\<exists>e. parse_time_series g rd rn (Some response) symbol interval = Inl e"
proof -
  let ?cells = "\<lambda>k. every (map (\<lambda>c. numeric_cell rn (frame_cell time_series k c))
                               (frame_columns time_series))"
  have "every (map rd (frame_index time_series)) = None
      \<or> every (map ?cells (frame_index time_series)) = None"
    using bad
  proof
    assume "\<exists>r \<in> set time_series. \<exists>f \<in> set (snd r). rn (snd f) = None"
    then obtain k r l v where r: "(k, r) \<in> set time_series" and f: "(l, v) \<in> set r"
      and v: "rn v = None"
      by fastforce
    from r f have k: "k \<in> set (frame_index time_series)"
      by (force simp: set_frame_index)
    from r f have l: "l \<in> set (frame_columns time_series)"
      by (force simp: set_frame_columns)
    from r keys have "map_of time_series k = Some r"
      by simp
    moreover from r f labels have "map_of r l = Some v"
      by fastforce
    ultimately have "numeric_cell rn (frame_cell time_series k l :: 'n cell) = None"
      using v by (simp add: frame_cell_def numeric_cell_def)
    with l have "None \<in> set (map (\<lambda>c. numeric_cell rn (frame_cell time_series k c :: 'n cell))
                               (frame_columns time_series))"
      by (simp add: rev_image_eqI)
    then have "?cells k = None"
      by (simp only: every_eq_None_iff)
    with k have "None \<in> set (map ?cells (frame_index time_series))"
      by (simp add: rev_image_eqI)
    then have "every (map ?cells (frame_index time_series)) = None"
      by (simp only: every_eq_None_iff)
    then show ?thesis ..
  next
    assume "\<exists>r \<in> set time_series. snd r \<noteq> [] \<and> rd (fst r) = None"
    then obtain k r where "(k, r) \<in> set time_series" "r \<noteq> []" "rd k = None"
      by fastforce
    then have "k \<in> set (frame_index time_series)" "rd k = None"
      by (auto simp: set_frame_index)
    then have "None \<in> set (map rd (frame_index time_series))"
      by (simp add: rev_image_eqI)
    then have "every (map rd (frame_index time_series)) = None"
      by (simp only: every_eq_None_iff)
    then show ?thesis ..
  qed
  then show ?thesis
    by (auto simp: parse_section [OF key sec] build_frame_series split: option.splits)
qed

lemma malformed_series_raises_example:
  "(\<exists>e. parse_time_series sample_generator read_stamp read_nat
          (Some [(''Time Series (5min)'',
                  JSeries [(''2024-01-02 10:05:00'', sample_fields ''1200''),
                           (''2024-01-02 10:00:00'', sample_fields ''n/a'')])])
          (Some ''IBM'') (Some ''5min'') = Inl e)
   \<and> (\<exists>e. parse_time_series sample_generator read_stamp read_nat
          (Some [(''Time Series (5min)'',
                  JSeries [(''2024-01-02 10:05:00'', sample_fields ''1200''),
                           (''yesterday'', sample_fields ''900'')])])
          (Some ''IBM'') (Some ''5min'') = Inl e)"
  using malformed_series_raises [of
          "[(''Time Series (5min)'',
             JSeries [(''2024-01-02 10:05:00'', sample_fields ''1200''),
                      (''2024-01-02 10:00:00'', sample_fields ''n/a'')])]"
          "''Time Series (5min)''"
          "[(''2024-01-02 10:05:00'', sample_fields ''1200''),
            (''2024-01-02 10:00:00'', sample_fields ''n/a'')]"
          read_nat read_stamp sample_generator "Some ''IBM''" "Some ''5min''"]
        malformed_series_raises [of
          "[(''Time Series (5min)'',
             JSeries [(''2024-01-02 10:05:00'', sample_fields ''1200''),
                      (''yesterday'', sample_fields ''900'')])]"
          "''Time Series (5min)''"
          "[(''2024-01-02 10:05:00'', sample_fields ''1200''),
            (''yesterday'', sample_fields ''900'')]"
          read_nat read_stamp sample_generator "Some ''IBM''" "Some ''5min''"]
  by (simp add: time_series_key_def sample_fields_def read_examples)


end
